theory Spec2Isabelle
  imports Complex_Main "HOL-Library.Char_ord" "HOL-Library.List_Lexorder" "HOL-Library.Option_ord"
begin

section \<open>Strings\<close>

text \<open>
  A Python \<^verbatim>\<open>str\<close> is a sequence of code points. The model covers the code points
  U+0000 .. U+00FF: one \<^typ>\<open>char\<close> is one code point of that range (so U+00E3, the
  letter a with tilde, is the single character \<open>char_of 227\<close>). A text attribute that
  may hold \<^verbatim>\<open>None\<close> (a NULL column) is a \<^typ>\<open>string option\<close>.
  Python floats are modelled as real numbers.
\<close>

definition cp :: "char \<Rightarrow> nat" where
  "cp c = of_char c"

definition py_lower_char :: "char \<Rightarrow> char" where
  \<comment> \<open>\<^verbatim>\<open>str.lower\<close> on one code point: A-Z, and U+00C0 .. U+00DE except U+00D7.\<close>
  "py_lower_char c =
     (if (65 \<le> cp c \<and> cp c \<le> 90) \<or> (192 \<le> cp c \<and> cp c \<le> 222 \<and> cp c \<noteq> 215)
      then char_of (cp c + 32) else c)"

definition py_lower :: "string \<Rightarrow> string" where
  "py_lower s = map py_lower_char s"

definition py_isspace :: "char \<Rightarrow> bool" where
  \<comment> \<open>\<^verbatim>\<open>str.isspace\<close>: U+0009 .. U+000D, U+001C .. U+0020, U+0085, U+00A0.\<close>
  "py_isspace c = ((9 \<le> cp c \<and> cp c \<le> 13) \<or> (28 \<le> cp c \<and> cp c \<le> 32) \<or> cp c = 133 \<or> cp c = 160)"

definition py_strip :: "string \<Rightarrow> string" where
  "py_strip s = rev (dropWhile py_isspace (rev (dropWhile py_isspace s)))"

definition py_isdigit :: "char \<Rightarrow> bool" where
  \<comment> \<open>\<^verbatim>\<open>str.isdigit\<close>: 0-9 and the superscripts U+00B2, U+00B3, U+00B9.\<close>
  "py_isdigit c = ((48 \<le> cp c \<and> cp c \<le> 57) \<or> cp c = 178 \<or> cp c = 179 \<or> cp c = 185)"

definition py_isalnum :: "char \<Rightarrow> bool" where
  \<comment> \<open>\<^verbatim>\<open>str.isalnum\<close>: letters, digits and the numeric characters U+00BC .. U+00BE.\<close>
  "py_isalnum c =
     (py_isdigit c \<or> (65 \<le> cp c \<and> cp c \<le> 90) \<or> (97 \<le> cp c \<and> cp c \<le> 122)
      \<or> cp c = 170 \<or> cp c = 181 \<or> cp c = 186 \<or> (188 \<le> cp c \<and> cp c \<le> 190)
      \<or> (192 \<le> cp c \<and> cp c \<noteq> 215 \<and> cp c \<noteq> 247))"

definition truthy :: "string option \<Rightarrow> bool" where
  \<comment> \<open>Python truth value of a text attribute: \<^verbatim>\<open>None\<close> and \<^verbatim>\<open>''\<close> are false.\<close>
  "truthy t = (case t of None \<Rightarrow> False | Some s \<Rightarrow> s \<noteq> [])"

definition py_not :: "string option \<Rightarrow> bool" where
  \<comment> \<open>\<^verbatim>\<open>not t\<close>\<close>
  "py_not t = (\<not> truthy t)"

section \<open>difflib.SequenceMatcher\<close>

text \<open>
  \<^verbatim>\<open>calculate_similarity\<close> calls \<^verbatim>\<open>difflib.SequenceMatcher(None, a, b).ratio()\<close> of the
  Python standard library. The definitions below follow CPython's \<^verbatim>\<open>difflib.py\<close> for
  \<^verbatim>\<open>isjunk = None\<close> and \<^verbatim>\<open>autojunk = True\<close>: the junk set is empty, so the two
  junk-extension loops of \<^verbatim>\<open>find_longest_match\<close> never run and are left out.
\<close>

definition popular :: "'a list \<Rightarrow> 'a \<Rightarrow> bool" where
  \<comment> \<open>\<^verbatim>\<open>__chain_b\<close>: with \<^verbatim>\<open>n >= 200\<close>, an element with more than \<^verbatim>\<open>n // 100 + 1\<close> occurrences.\<close>
  "popular b elt = (200 \<le> length b \<and> length b div 100 + 1 < length (filter (\<lambda>x. x = elt) b))"

definition b2j :: "'a list \<Rightarrow> 'a \<Rightarrow> nat list" where
  \<comment> \<open>the indices of \<open>elt\<close> in \<open>b\<close>, ascending; popular elements are deleted from the dict.\<close>
  "b2j b elt = (if popular b elt then [] else filter (\<lambda>j. b ! j = elt) [0..<length b])"

type_synonym match = "nat \<times> nat \<times> nat"

fun flm_row :: "nat \<Rightarrow> (nat \<Rightarrow> nat) \<Rightarrow> nat list \<Rightarrow> (nat \<Rightarrow> nat) \<times> match \<Rightarrow> (nat \<Rightarrow> nat) \<times> match" where
  \<comment> \<open>the loop over \<open>j\<close> for one \<open>i\<close>; \<open>j2len\<close> is the dict of the previous row, read with default 0.\<close>
  "flm_row i j2len [] st = st"
| "flm_row i j2len (j # js) (newj2len, (besti, bestj, bestsize)) =
     (let k = (if j = 0 then 0 else j2len (j - 1)) + 1
      in flm_row i j2len js
           (newj2len(j := k),
            if bestsize < k then (i + 1 - k, j + 1 - k, k) else (besti, bestj, bestsize)))"

fun flm_rows :: "'a list \<Rightarrow> 'a list \<Rightarrow> nat \<Rightarrow> nat \<Rightarrow> nat list \<Rightarrow> (nat \<Rightarrow> nat) \<times> match \<Rightarrow> (nat \<Rightarrow> nat) \<times> match" where
  \<comment> \<open>the loop \<^verbatim>\<open>for i in range(alo, ahi)\<close>; indices below \<open>blo\<close> are skipped, the loop breaks at \<open>bhi\<close>.\<close>
  "flm_rows a b blo bhi [] st = st"
| "flm_rows a b blo bhi (i # is) (j2len, best) =
     flm_rows a b blo bhi is
       (flm_row i j2len (filter (\<lambda>j. blo \<le> j \<and> j < bhi) (b2j b (a ! i))) (\<lambda>_. 0, best))"

function extend_back :: "'a list \<Rightarrow> 'a list \<Rightarrow> nat \<Rightarrow> nat \<Rightarrow> match \<Rightarrow> match" where
  "extend_back a b alo blo (besti, bestj, bestsize) =
     (if alo < besti \<and> blo < bestj \<and> a ! (besti - 1) = b ! (bestj - 1)
      then extend_back a b alo blo (besti - 1, bestj - 1, bestsize + 1)
      else (besti, bestj, bestsize))"
  by pat_completeness auto
termination
  by (relation "measure (\<lambda>(a, b, alo, blo, besti, bestj, bestsize). besti)") auto

function extend_forward :: "'a list \<Rightarrow> 'a list \<Rightarrow> nat \<Rightarrow> nat \<Rightarrow> match \<Rightarrow> match" where
  "extend_forward a b ahi bhi (besti, bestj, bestsize) =
     (if besti + bestsize < ahi \<and> bestj + bestsize < bhi
         \<and> a ! (besti + bestsize) = b ! (bestj + bestsize)
      then extend_forward a b ahi bhi (besti, bestj, bestsize + 1)
      else (besti, bestj, bestsize))"
  by pat_completeness auto
termination
  by (relation "measure (\<lambda>(a, b, ahi, bhi, besti, bestj, bestsize). ahi - (besti + bestsize))") auto

declare extend_back.simps [simp del] extend_forward.simps [simp del]

definition find_longest_match :: "'a list \<Rightarrow> 'a list \<Rightarrow> nat \<Rightarrow> nat \<Rightarrow> nat \<Rightarrow> nat \<Rightarrow> match" where
  "find_longest_match a b alo ahi blo bhi =
     extend_forward a b ahi bhi
       (extend_back a b alo blo
          (snd (flm_rows a b blo bhi [alo..<ahi] (\<lambda>_. 0, (alo, blo, 0)))))"

text \<open>
  \<^verbatim>\<open>get_matching_blocks\<close> keeps a work list of ranges, takes the longest match of a
  range and queues the ranges to its left and to its right. \<^verbatim>\<open>ratio\<close> only sums the sizes of
  the blocks found, which does not depend on the order the work list is served in, so the
  model recurses on the two ranges directly. The recursion terminates because the match lies
  inside the range in \<open>a\<close>.
\<close>

lemma flm_row_bounds:
  assumes "alo \<le> i" "\<forall>j. j2len j \<le> i - alo" "\<forall>j. new j \<le> i + 1 - alo"
    "alo \<le> fst best" "fst best + snd (snd best) \<le> i + 1"
    "flm_row i j2len js (new, best) = (new', best')"
  shows "(\<forall>j. new' j \<le> i + 1 - alo) \<and> alo \<le> fst best' \<and> fst best' + snd (snd best') \<le> i + 1"
  using assms
proof (induction js arbitrary: new best)
  case Nil
  then show ?case by simp
next
  case (Cons j js)
  obtain bi bj bs where b: "best = (bi, bj, bs)" by (cases best) auto
  define k where "k = (if j = 0 then 0 else j2len (j - 1)) + 1"
  have "j2len (j - 1) \<le> i - alo" using Cons.prems(2) by blast
  then have kle: "k \<le> i + 1 - alo" using Cons.prems(1) unfolding k_def by auto
  let ?best = "if bs < k then (i + 1 - k, j + 1 - k, k) else (bi, bj, bs)"
  have step: "flm_row i j2len js (new(j := k), ?best) = (new', best')"
    using Cons.prems(6) by (simp only: b k_def flm_row.simps Let_def)
  show ?case
  proof (rule Cons.IH[OF Cons.prems(1,2) _ _ _ step])
    show "\<forall>j'. (new(j := k)) j' \<le> i + 1 - alo" using Cons.prems(3) kle by simp
    show "alo \<le> fst ?best" using Cons.prems(4) kle Cons.prems(1) b by auto
    show "fst ?best + snd (snd ?best) \<le> i + 1" using Cons.prems(5) kle b by auto
  qed
qed

lemma flm_rows_bounds:
  assumes "alo \<le> m" "\<forall>j. j2len j \<le> m - alo" "alo \<le> fst best" "fst best + snd (snd best) \<le> m"
    "flm_rows a b blo bhi [m..<ahi] (j2len, best) = (j2len', best')"
  shows "alo \<le> fst best' \<and> fst best' + snd (snd best') \<le> max m ahi"
  using assms
proof (induction "ahi - m" arbitrary: m j2len best)
  case 0
  then show ?case by auto
next
  case (Suc n)
  then have lt: "m < ahi" by simp
  obtain new bst where r: "flm_row m j2len (filter (\<lambda>j. blo \<le> j \<and> j < bhi) (b2j b (a ! m))) (\<lambda>_. 0, best) = (new, bst)"
    by (cases "flm_row m j2len (filter (\<lambda>j. blo \<le> j \<and> j < bhi) (b2j b (a ! m))) (\<lambda>_. 0, best)") auto
  have inv: "(\<forall>j. new j \<le> m + 1 - alo) \<and> alo \<le> fst bst \<and> fst bst + snd (snd bst) \<le> m + 1"
    by (rule flm_row_bounds[OF Suc.prems(1,2) _ Suc.prems(3) _ r]) (use Suc.prems(4) in auto)
  have step: "flm_rows a b blo bhi [Suc m..<ahi] (new, bst) = (j2len', best')"
    using Suc.prems(5) lt r by (simp add: upt_conv_Cons)
  have "alo \<le> fst best' \<and> fst best' + snd (snd best') \<le> max (Suc m) ahi"
    by (rule Suc.hyps(1)[OF _ _ _ _ _ step]) (use Suc.hyps(2) Suc.prems(1) inv in auto)
  then show ?case using lt by auto
qed

lemma extend_back_bounds:
  "alo \<le> fst m \<Longrightarrow> alo \<le> fst (extend_back a b alo blo m)
     \<and> fst (extend_back a b alo blo m) + snd (snd (extend_back a b alo blo m)) = fst m + snd (snd m)"
proof (induction a b alo blo m rule: extend_back.induct)
  case (1 a b alo blo besti bestj bestsize)
  show ?case
  proof (cases "alo < besti \<and> blo < bestj \<and> a ! (besti - 1) = b ! (bestj - 1)")
    case True
    have eq: "extend_back a b alo blo (besti, bestj, bestsize)
        = extend_back a b alo blo (besti - 1, bestj - 1, bestsize + 1)"
      by (subst extend_back.simps) (use True in auto)
    have "alo \<le> fst (besti - 1, bestj - 1, bestsize + 1)" using True by auto
    from "1.IH"[OF True this] True show ?thesis unfolding eq by auto
  next
    case False
    have "extend_back a b alo blo (besti, bestj, bestsize) = (besti, bestj, bestsize)"
      by (subst extend_back.simps) (use False in auto)
    then show ?thesis using "1.prems" by simp
  qed
qed

lemma extend_forward_bounds:
  "fst m + snd (snd m) \<le> max alo ahi \<Longrightarrow> fst (extend_forward a b ahi bhi m) = fst m
     \<and> fst (extend_forward a b ahi bhi m) + snd (snd (extend_forward a b ahi bhi m)) \<le> max alo ahi"
proof (induction a b ahi bhi m rule: extend_forward.induct)
  case (1 a b ahi bhi besti bestj bestsize)
  show ?case
  proof (cases "besti + bestsize < ahi \<and> bestj + bestsize < bhi
         \<and> a ! (besti + bestsize) = b ! (bestj + bestsize)")
    case True
    have eq: "extend_forward a b ahi bhi (besti, bestj, bestsize)
        = extend_forward a b ahi bhi (besti, bestj, bestsize + 1)"
      by (subst extend_forward.simps) (use True in auto)
    have "fst (besti, bestj, bestsize + 1) + snd (snd (besti, bestj, bestsize + 1)) \<le> max alo ahi"
      using True by auto
    from "1.IH"[OF True this] show ?thesis unfolding eq by auto
  next
    case False
    have "extend_forward a b ahi bhi (besti, bestj, bestsize) = (besti, bestj, bestsize)"
      by (subst extend_forward.simps) (use False in auto)
    then show ?thesis using "1.prems" by simp
  qed
qed

lemma find_longest_match_bounds:
  assumes "find_longest_match a b alo ahi blo bhi = (i, j, k)"
  shows "alo \<le> i \<and> i + k \<le> max alo ahi"
proof -
  obtain jl m0 where r: "flm_rows a b blo bhi [alo..<ahi] (\<lambda>_. 0, (alo, blo, 0)) = (jl, m0)"
    by (cases "flm_rows a b blo bhi [alo..<ahi] (\<lambda>_. 0, (alo, blo, 0))") auto
  have 0: "alo \<le> fst m0 \<and> fst m0 + snd (snd m0) \<le> max alo ahi"
    by (rule flm_rows_bounds[OF _ _ _ _ r]) auto
  let ?m1 = "extend_back a b alo blo m0"
  have 1: "alo \<le> fst ?m1 \<and> fst ?m1 + snd (snd ?m1) \<le> max alo ahi"
    using extend_back_bounds[of alo m0 a b blo] 0 by simp
  have 2: "fst (extend_forward a b ahi bhi ?m1) = fst ?m1
     \<and> fst (extend_forward a b ahi bhi ?m1) + snd (snd (extend_forward a b ahi bhi ?m1)) \<le> max alo ahi"
    using extend_forward_bounds[of ?m1 alo ahi a b bhi] 1 by simp
  have "find_longest_match a b alo ahi blo bhi = extend_forward a b ahi bhi ?m1"
    by (simp add: find_longest_match_def r)
  with assms 1 2 show ?thesis by simp
qed

function matching_size :: "'a list \<Rightarrow> 'a list \<Rightarrow> nat \<Rightarrow> nat \<Rightarrow> nat \<Rightarrow> nat \<Rightarrow> nat" where
  "matching_size a b alo ahi blo bhi =
     (case find_longest_match a b alo ahi blo bhi of (i, j, k) \<Rightarrow>
        if k = 0 then 0
        else k + (if alo < i \<and> blo < j then matching_size a b alo i blo j else 0)
               + (if i + k < ahi \<and> j + k < bhi then matching_size a b (i + k) ahi (j + k) bhi else 0))"
  by pat_completeness auto
termination
proof (relation "measure (\<lambda>(a, b, alo, ahi, blo, bhi). ahi - alo)")
  show "wf (measure (\<lambda>(a, b, alo, ahi, blo, bhi). ahi - alo))" by simp
next
  fix a b :: "'a list" and alo ahi blo bhi x1 x2 x1a x2a
  assume "(x1, x2) = find_longest_match a b alo ahi blo bhi" "(x1a, x2a) = x2" "x2a \<noteq> 0" "alo < x1 \<and> blo < x1a"
  then have "find_longest_match a b alo ahi blo bhi = (x1, x1a, x2a)" by simp
  from find_longest_match_bounds[OF this] \<open>x2a \<noteq> 0\<close> \<open>alo < x1 \<and> blo < x1a\<close>
  show "((a, b, alo, x1, blo, x1a), a, b, alo, ahi, blo, bhi) \<in> measure (\<lambda>(a, b, alo, ahi, blo, bhi). ahi - alo)"
    by auto
next
  fix a b :: "'a list" and alo ahi blo bhi x1 x2 x1a x2a
  assume "(x1, x2) = find_longest_match a b alo ahi blo bhi" "(x1a, x2a) = x2" "x2a \<noteq> 0" "x1 + x2a < ahi \<and> x1a + x2a < bhi"
  then have "find_longest_match a b alo ahi blo bhi = (x1, x1a, x2a)" by simp
  from find_longest_match_bounds[OF this] \<open>x2a \<noteq> 0\<close> \<open>x1 + x2a < ahi \<and> x1a + x2a < bhi\<close>
  show "((a, b, x1 + x2a, ahi, x1a + x2a, bhi), a, b, alo, ahi, blo, bhi) \<in> measure (\<lambda>(a, b, alo, ahi, blo, bhi). ahi - alo)"
    by auto
qed

declare matching_size.simps [simp del]

definition calculate_ratio :: "nat \<Rightarrow> nat \<Rightarrow> real" where
  \<comment> \<open>\<^verbatim>\<open>_calculate_ratio(matches, length)\<close>\<close>
  "calculate_ratio matches len = (if len \<noteq> 0 then 2 * real matches / real len else 1)"

definition ratio :: "'a list \<Rightarrow> 'a list \<Rightarrow> real" where
  \<comment> \<open>\<^verbatim>\<open>SequenceMatcher(None, a, b).ratio()\<close>\<close>
  "ratio a b = calculate_ratio (matching_size a b 0 (length a) 0 (length b)) (length a + length b)"

section \<open>Similarity primitives\<close>

definition calculate_similarity :: "string option \<Rightarrow> string option \<Rightarrow> real" where
  "calculate_similarity text1 text2 =
     (if py_not text1 \<or> py_not text2 then 0
      else ratio (py_strip (py_lower (the text1))) (py_strip (py_lower (the text2))))"

definition normalize_document :: "string option \<Rightarrow> string" where
  "normalize_document document =
     (if py_not document then [] else filter py_isalnum (py_lower (the document)))"

section \<open>Entity records\<close>

text \<open>
  The three model classes share \<^verbatim>\<open>id\<close>, \<^verbatim>\<open>status\<close>, \<^verbatim>\<open>updated_by\<close> and \<^verbatim>\<open>updated_at\<close>;
  of the other attributes only those read by the duplicate service are kept.
\<close>

record entity =
  e_id :: int
  e_status :: string
  e_updated_by :: "string option"
  e_updated_at :: "nat option"

record client = entity +
  c_name :: "string option"
  c_document_number :: "string option"
  c_email :: "string option"
  c_phone :: "string option"

record product = entity +
  p_code :: "string option"
  p_name :: "string option"
  p_description :: "string option"

record supplier = entity +
  s_name :: "string option"
  s_document_number :: "string option"
  s_email :: "string option"
  s_contact_person :: "string option"

section \<open>Entity similarity scorers\<close>

definition calculate_client_similarity :: "client \<Rightarrow> client \<Rightarrow> real" where
  "calculate_client_similarity client1 client2 =
     (let name_score = calculate_similarity (c_name client1) (c_name client2);
          scores = [name_score * (4 / 10)];
          doc1 = normalize_document (c_document_number client1);
          doc2 = normalize_document (c_document_number client2);
          scores = (if doc1 \<noteq> [] \<and> doc2 \<noteq> []
                    then scores @ [(if doc1 = doc2 then 1 else 0) * (3 / 10)] else scores);
          scores = (if truthy (c_email client1) \<and> truthy (c_email client2)
                    then scores @ [calculate_similarity (c_email client1) (c_email client2) * (2 / 10)]
                    else scores);
          scores = (if truthy (c_phone client1) \<and> truthy (c_phone client2)
                    then scores @ [calculate_similarity
                                     (Some (filter py_isdigit (the (c_phone client1))))
                                     (Some (filter py_isdigit (the (c_phone client2)))) * (1 / 10)]
                    else scores)
      in if scores \<noteq> [] then sum_list scores / real (length scores) else 0)"

definition calculate_product_similarity :: "product \<Rightarrow> product \<Rightarrow> real" where
  "calculate_product_similarity product1 product2 =
     (let scores = [];
          scores = (if truthy (p_code product1) \<and> truthy (p_code product2)
                    then scores @ [(if py_lower (the (p_code product1)) = py_lower (the (p_code product2))
                                    then 1 else 0) * (4 / 10)]
                    else scores);
          name_score = calculate_similarity (p_name product1) (p_name product2);
          scores = scores @ [name_score * (4 / 10)];
          scores = (if truthy (p_description product1) \<and> truthy (p_description product2)
                    then scores @ [calculate_similarity (p_description product1) (p_description product2)
                                   * (2 / 10)]
                    else scores)
      in if scores \<noteq> [] then sum_list scores / real (length scores) else 0)"

definition calculate_supplier_similarity :: "supplier \<Rightarrow> supplier \<Rightarrow> real" where
  "calculate_supplier_similarity supplier1 supplier2 =
     (let name_score = calculate_similarity (s_name supplier1) (s_name supplier2);
          scores = [name_score * (4 / 10)];
          doc1 = normalize_document (s_document_number supplier1);
          doc2 = normalize_document (s_document_number supplier2);
          scores = (if doc1 \<noteq> [] \<and> doc2 \<noteq> []
                    then scores @ [(if doc1 = doc2 then 1 else 0) * (3 / 10)] else scores);
          scores = (if truthy (s_email supplier1) \<and> truthy (s_email supplier2)
                    then scores @ [calculate_similarity (s_email supplier1) (s_email supplier2) * (2 / 10)]
                    else scores);
          scores = (if truthy (s_contact_person supplier1) \<and> truthy (s_contact_person supplier2)
                    then scores @ [calculate_similarity (s_contact_person supplier1)
                                     (s_contact_person supplier2) * (1 / 10)]
                    else scores)
      in if scores \<noteq> [] then sum_list scores / real (length scores) else 0)"

section \<open>The database\<close>

text \<open>
  A table is the list of its rows in rowid order. \<open>now\<close> is the value of
  \<^verbatim>\<open>CURRENT_TIMESTAMP\<close>, \<open>last_duplicate_id\<close> the AUTOINCREMENT sequence of
  \<^verbatim>\<open>potential_duplicates\<close>. The JSON columns of \<^verbatim>\<open>audit_trail\<close> are left out.

  Every statement sent to SQLite can raise for a reason outside the program (the file
  cannot be opened, the disk is full). Which ones do is given by a function from the
  statement (with its parameters) to a truth value, passed to every operation;
  \<open>no_faults\<close> below is the function under which none does. An exception is the value
  \<open>Inl DatabaseError\<close>.

  Every operation opens a connection of its own. SQLite admits one writer: a connection
  that has sent an UPDATE holds the write lock until it commits, and a statement that
  writes on another connection meanwhile raises \<^verbatim>\<open>database is locked\<close>. The two \<^verbatim>\<open>delete\<close>
  connections are the only place where the duplicate service meets this.
\<close>

datatype error = DatabaseError

datatype db_op =
    SelectAll string
  | SelectById string int
  | UpdateDeleted string int
  | CountDuplicates string int int
  | InsertDuplicate string int int
  | CommitInsert string int int
  | UpdateDuplicate int
  | CommitUpdate int

type_synonym faults = "db_op \<Rightarrow> bool"

record potential_duplicate =
  pd_id :: "int option"
  table_name :: string
  record_id_1 :: int
  record_id_2 :: int
  similarity_score :: real
  status :: string
  reviewed_by :: "string option"
  reviewed_at :: "nat option"
  created_at :: "nat option"

record audit_entry =
  a_table_name :: string
  a_record_id :: int
  a_action :: string
  a_changed_by :: string

record database =
  clients :: "client list"
  products :: "product list"
  suppliers :: "supplier list"
  audit_trail :: "audit_entry list"
  potential_duplicates :: "potential_duplicate list"
  last_duplicate_id :: int
  now :: nat

subsection \<open>Entity repositories\<close>

definition get_all :: "faults \<Rightarrow> string \<Rightarrow> ('a entity_scheme \<Rightarrow> string option) \<Rightarrow> string option
    \<Rightarrow> 'a entity_scheme list \<Rightarrow> error + 'a entity_scheme list" where
  \<comment> \<open>\<^verbatim>\<open>SELECT * FROM t [WHERE status = ?] ORDER BY name\<close>; rows with equal names keep table order.\<close>
  "get_all F t name_of status_filter rows =
     (if F (SelectAll t) then Inl DatabaseError
      else if truthy status_filter
           then Inr (sort_key name_of (filter (\<lambda>r. e_status r = the status_filter) rows))
           else Inr (sort_key name_of rows))"

definition get_by_id :: "faults \<Rightarrow> string \<Rightarrow> int \<Rightarrow> 'a entity_scheme list \<Rightarrow> error + 'a entity_scheme option" where
  \<comment> \<open>\<^verbatim>\<open>SELECT * FROM t WHERE id = ?\<close> and \<^verbatim>\<open>fetchone()\<close>\<close>
  "get_by_id F t i rows =
     (if F (SelectById t i) then Inl DatabaseError else Inr (find (\<lambda>r. e_id r = i) rows))"

definition delete :: "faults \<Rightarrow> string \<Rightarrow> (database \<Rightarrow> 'a entity_scheme list) \<Rightarrow> int \<Rightarrow> string
    \<Rightarrow> database \<Rightarrow> (error + bool) \<times> database" where
  \<comment> \<open>the body shared by \<^verbatim>\<open>Client.delete\<close>, \<^verbatim>\<open>Product.delete\<close> and \<^verbatim>\<open>Supplier.delete\<close>. For a
     row that exists, \<^verbatim>\<open>UPDATE t SET status='deleted', ... WHERE id=?\<close> runs on the connection
     of the \<^verbatim>\<open>with\<close> block and is not yet committed when \<^verbatim>\<open>_log_audit_trail_static\<close> sends
     its INSERT on a second connection: that INSERT raises \<^verbatim>\<open>database is locked\<close>, the
     exception leaves the \<^verbatim>\<open>with\<close> block and the UPDATE is rolled back. \<^verbatim>\<open>conn.commit()\<close> and
     \<^verbatim>\<open>return True\<close> are never reached.\<close>
  "delete F t rows_of i user db =
     (case get_by_id F t i (rows_of db) of
        Inl e \<Rightarrow> (Inl e, db)
      | Inr None \<Rightarrow> (Inr False, db)
      | Inr (Some r) \<Rightarrow>
          if F (UpdateDeleted t i) then (Inl DatabaseError, db)
          else (Inl DatabaseError, db))"

definition Client_get_all :: "faults \<Rightarrow> string option \<Rightarrow> database \<Rightarrow> error + client list" where
  "Client_get_all F status_filter db = get_all F ''clients'' c_name status_filter (clients db)"



definition Client_get_by_id :: "faults \<Rightarrow> int \<Rightarrow> database \<Rightarrow> error + client option" where
  "Client_get_by_id F i db = get_by_id F ''clients'' i (clients db)"

definition Product_get_by_id :: "faults \<Rightarrow> int \<Rightarrow> database \<Rightarrow> error + product option" where
  "Product_get_by_id F i db = get_by_id F ''products'' i (products db)"

definition Supplier_get_by_id :: "faults \<Rightarrow> int \<Rightarrow> database \<Rightarrow> error + supplier option" where
  "Supplier_get_by_id F i db = get_by_id F ''suppliers'' i (suppliers db)"

definition Client_delete :: "faults \<Rightarrow> int \<Rightarrow> string \<Rightarrow> database \<Rightarrow> (error + bool) \<times> database" where
  "Client_delete F i user db = delete F ''clients'' clients i user db"

definition Product_delete :: "faults \<Rightarrow> int \<Rightarrow> string \<Rightarrow> database \<Rightarrow> (error + bool) \<times> database" where
  "Product_delete F i user db = delete F ''products'' products i user db"

definition Supplier_delete :: "faults \<Rightarrow> int \<Rightarrow> string \<Rightarrow> database \<Rightarrow> (error + bool) \<times> database" where
  "Supplier_delete F i user db = delete F ''suppliers'' suppliers i user db"

subsection \<open>The duplicate candidate store\<close>

definition save :: "faults \<Rightarrow> potential_duplicate \<Rightarrow> database
    \<Rightarrow> (error + int) \<times> potential_duplicate \<times> database" where
  \<comment> \<open>\<^verbatim>\<open>PotentialDuplicate.save\<close>: returns the result, the object (whose \<^verbatim>\<open>id\<close> the insert
     sets) and the database. A failed commit rolls the statement back.\<close>
  "save F d db =
     (case pd_id d of
        None \<Rightarrow>
          if F (InsertDuplicate (table_name d) (record_id_1 d) (record_id_2 d))
          then (Inl DatabaseError, d, db)
          else let new_id = last_duplicate_id db + 1;
                   row = \<lparr>pd_id = Some new_id, table_name = table_name d,
                          record_id_1 = record_id_1 d, record_id_2 = record_id_2 d,
                          similarity_score = similarity_score d, status = status d,
                          reviewed_by = None, reviewed_at = None, created_at = Some (now db)\<rparr>;
                   d' = d\<lparr>pd_id := Some new_id\<rparr>
               in if F (CommitInsert (table_name d) (record_id_1 d) (record_id_2 d))
                  then (Inl DatabaseError, d', db)
                  else (Inr new_id, d',
                        db\<lparr>potential_duplicates := potential_duplicates db @ [row],
                           last_duplicate_id := new_id\<rparr>)
      | Some i \<Rightarrow>
          if F (UpdateDuplicate i) then (Inl DatabaseError, d, db)
          else if F (CommitUpdate i) then (Inl DatabaseError, d, db)
          else (Inr i, d,
                db\<lparr>potential_duplicates :=
                     map (\<lambda>r. if pd_id r = Some i
                               then r\<lparr>status := status d, reviewed_by := reviewed_by d,
                                      reviewed_at := Some (now db)\<rparr>
                               else r) (potential_duplicates db)\<rparr>))"

definition duplicate_exists :: "faults \<Rightarrow> string \<Rightarrow> int \<Rightarrow> int \<Rightarrow> database \<Rightarrow> error + bool" where
  \<comment> \<open>\<^verbatim>\<open>_duplicate_exists\<close>: \<^verbatim>\<open>SELECT COUNT(*) ... > 0\<close>\<close>
  "duplicate_exists F t record_id_1' record_id_2' db =
     (if F (CountDuplicates t record_id_1' record_id_2') then Inl DatabaseError
      else Inr (0 < length (filter (\<lambda>r. table_name r = t \<and>
                  ((record_id_1 r = record_id_1' \<and> record_id_2 r = record_id_2') \<or>
                   (record_id_1 r = record_id_2' \<and> record_id_2 r = record_id_1')))
                  (potential_duplicates db))))"

section \<open>Detection\<close>

text \<open>
  The three \<^verbatim>\<open>detect_*_duplicates\<close> functions have the same body up to the table name,
  the model class and the scorer; \<open>detect_inner\<close> is the loop over \<^verbatim>\<open>clients[i+1:]\<close> and
  \<open>detect_outer\<close> the loop over \<^verbatim>\<open>enumerate(clients)\<close>. An exception leaves the loops with
  the database as it is at that point.
\<close>

fun detect_inner :: "faults \<Rightarrow> string \<Rightarrow> ('a entity_scheme \<Rightarrow> 'a entity_scheme \<Rightarrow> real) \<Rightarrow> real
    \<Rightarrow> 'a entity_scheme \<Rightarrow> 'a entity_scheme list \<Rightarrow> potential_duplicate list \<Rightarrow> database
    \<Rightarrow> (error + potential_duplicate list) \<times> database" where
  "detect_inner F t sim threshold r1 [] duplicates db = (Inr duplicates, db)"
| "detect_inner F t sim threshold r1 (r2 # rest) duplicates db =
     (if threshold \<le> sim r1 r2
      then (case duplicate_exists F t (e_id r1) (e_id r2) db of
              Inl e \<Rightarrow> (Inl e, db)
            | Inr True \<Rightarrow> detect_inner F t sim threshold r1 rest duplicates db
            | Inr False \<Rightarrow>
                (case save F \<lparr>pd_id = None, table_name = t, record_id_1 = e_id r1,
                              record_id_2 = e_id r2, similarity_score = sim r1 r2,
                              status = ''pending'', reviewed_by = None, reviewed_at = None,
                              created_at = None\<rparr> db of
                   (Inl e, d', db') \<Rightarrow> (Inl e, db')
                 | (Inr _, d', db') \<Rightarrow>
                     detect_inner F t sim threshold r1 rest (duplicates @ [d']) db'))
      else detect_inner F t sim threshold r1 rest duplicates db)"

fun detect_outer :: "faults \<Rightarrow> string \<Rightarrow> ('a entity_scheme \<Rightarrow> 'a entity_scheme \<Rightarrow> real) \<Rightarrow> real
    \<Rightarrow> 'a entity_scheme list \<Rightarrow> potential_duplicate list \<Rightarrow> database
    \<Rightarrow> (error + potential_duplicate list) \<times> database" where
  "detect_outer F t sim threshold [] duplicates db = (Inr duplicates, db)"
| "detect_outer F t sim threshold (r1 # rest) duplicates db =
     (case detect_inner F t sim threshold r1 rest duplicates db of
        (Inl e, db') \<Rightarrow> (Inl e, db')
      | (Inr duplicates', db') \<Rightarrow> detect_outer F t sim threshold rest duplicates' db')"

definition detect_client_duplicates :: "faults \<Rightarrow> real \<Rightarrow> database
    \<Rightarrow> (error + potential_duplicate list) \<times> database" where
  "detect_client_duplicates F threshold db =
     (case Client_get_all F (Some ''active'') db of
        Inl e \<Rightarrow> (Inl e, db)
      | Inr rows \<Rightarrow> detect_outer F ''clients'' calculate_client_similarity threshold rows [] db)"




section \<open>Review and merge\<close>

datatype entity_record = ClientRecord client | ProductRecord product | SupplierRecord supplier

definition get_duplicate_details :: "faults \<Rightarrow> potential_duplicate \<Rightarrow> database
    \<Rightarrow> error + (entity_record option \<times> entity_record option)" where
  "get_duplicate_details F duplicate db =
     (if table_name duplicate = ''clients'' then
        (case Client_get_by_id F (record_id_1 duplicate) db of
           Inl e \<Rightarrow> Inl e
         | Inr record1 \<Rightarrow>
             (case Client_get_by_id F (record_id_2 duplicate) db of
                Inl e \<Rightarrow> Inl e
              | Inr record2 \<Rightarrow> Inr (map_option ClientRecord record1, map_option ClientRecord record2)))
      else if table_name duplicate = ''products'' then
        (case Product_get_by_id F (record_id_1 duplicate) db of
           Inl e \<Rightarrow> Inl e
         | Inr record1 \<Rightarrow>
             (case Product_get_by_id F (record_id_2 duplicate) db of
                Inl e \<Rightarrow> Inl e
              | Inr record2 \<Rightarrow> Inr (map_option ProductRecord record1, map_option ProductRecord record2)))
      else if table_name duplicate = ''suppliers'' then
        (case Supplier_get_by_id F (record_id_1 duplicate) db of
           Inl e \<Rightarrow> Inl e
         | Inr record1 \<Rightarrow>
             (case Supplier_get_by_id F (record_id_2 duplicate) db of
                Inl e \<Rightarrow> Inl e
              | Inr record2 \<Rightarrow> Inr (map_option SupplierRecord record1, map_option SupplierRecord record2)))
      else Inr (None, None))"

definition merge_delete :: "faults \<Rightarrow> potential_duplicate \<Rightarrow> int \<Rightarrow> string \<Rightarrow> database
    \<Rightarrow> (error + unit) \<times> database" where
  \<comment> \<open>the \<^verbatim>\<open>if/elif/elif\<close> at the head of the \<^verbatim>\<open>try\<close> block; the result of \<^verbatim>\<open>delete\<close> is dropped\<close>
  "merge_delete F duplicate keep_record_id user db =
     (let delete_id = (if keep_record_id = record_id_1 duplicate
                       then record_id_2 duplicate else record_id_1 duplicate)
      in if table_name duplicate = ''clients'' then
           (case Client_delete F delete_id user db of
              (Inl e, db') \<Rightarrow> (Inl e, db') | (Inr _, db') \<Rightarrow> (Inr (), db'))
         else if table_name duplicate = ''products'' then
           (case Product_delete F delete_id user db of
              (Inl e, db') \<Rightarrow> (Inl e, db') | (Inr _, db') \<Rightarrow> (Inr (), db'))
         else if table_name duplicate = ''suppliers'' then
           (case Supplier_delete F delete_id user db of
              (Inl e, db') \<Rightarrow> (Inl e, db') | (Inr _, db') \<Rightarrow> (Inr (), db'))
         else (Inr (), db))"

definition merge_records_try :: "faults \<Rightarrow> potential_duplicate \<Rightarrow> int \<Rightarrow> string \<Rightarrow> database
    \<Rightarrow> (error + bool) \<times> potential_duplicate \<times> database" where
  \<comment> \<open>the \<^verbatim>\<open>try\<close> block of \<^verbatim>\<open>merge_records\<close>\<close>
  "merge_records_try F duplicate keep_record_id user db =
     (case merge_delete F duplicate keep_record_id user db of
        (Inl e, db') \<Rightarrow> (Inl e, duplicate, db')
      | (Inr _, db') \<Rightarrow>
          (case save F (duplicate\<lparr>status := ''merged'', reviewed_by := Some user\<rparr>) db' of
             (Inl e, d', db'') \<Rightarrow> (Inl e, d', db'')
           | (Inr _, d', db'') \<Rightarrow> (Inr True, d', db'')))"

definition merge_records :: "faults \<Rightarrow> potential_duplicate \<Rightarrow> int \<Rightarrow> string \<Rightarrow> database
    \<Rightarrow> (error + bool) \<times> potential_duplicate \<times> database" where
  \<comment> \<open>\<^verbatim>\<open>except Exception\<close>: the error is printed and \<^verbatim>\<open>False\<close> returned\<close>
  "merge_records F duplicate keep_record_id user db =
     (case merge_records_try F duplicate keep_record_id user db of
        (Inl e, d', db') \<Rightarrow> (Inr False, d', db')
      | (Inr b, d', db') \<Rightarrow> (Inr b, d', db'))"

definition mark_as_not_duplicate :: "faults \<Rightarrow> potential_duplicate \<Rightarrow> string \<Rightarrow> database
    \<Rightarrow> (error + bool) \<times> potential_duplicate \<times> database" where
  "mark_as_not_duplicate F duplicate user db =
     (case save F (duplicate\<lparr>status := ''not_duplicate'', reviewed_by := Some user\<rparr>) db of
        (Inl e, d', db') \<Rightarrow> (Inr False, d', db')
      | (Inr _, d', db') \<Rightarrow> (Inr True, d', db'))"

section \<open>Notions used in the statements\<close>

text \<open>
  \<open>resolves\<close> and \<open>record_status\<close> read the entity tables by table name; \<open>identity_columns\<close>
  are the columns of a candidate row other than \<^verbatim>\<open>status\<close>, \<^verbatim>\<open>reviewed_by\<close> and
  \<^verbatim>\<open>reviewed_at\<close>; \<open>pair_stored\<close> is the condition of \<^verbatim>\<open>_duplicate_exists\<close> on the rows, and
  \<open>high_pairs_stored\<close> says that every pair the detection loops visit scores below the
  threshold or is stored.
\<close>

definition resolves :: "database \<Rightarrow> string \<Rightarrow> int \<Rightarrow> bool" where
  "resolves db t i =
     (if t = ''clients'' then i \<in> set (map e_id (clients db))
      else if t = ''products'' then i \<in> set (map e_id (products db))
      else if t = ''suppliers'' then i \<in> set (map e_id (suppliers db))
      else False)"

definition identity_columns :: "potential_duplicate
    \<Rightarrow> int option \<times> string \<times> int \<times> int \<times> real \<times> nat option" where
  "identity_columns r =
     (pd_id r, table_name r, record_id_1 r, record_id_2 r, similarity_score r, created_at r)"

definition record_status :: "database \<Rightarrow> string \<Rightarrow> int \<Rightarrow> string option" where
  "record_status db t i =
     (if t = ''clients'' then map_option e_status (find (\<lambda>r. e_id r = i) (clients db))
      else if t = ''products'' then map_option e_status (find (\<lambda>r. e_id r = i) (products db))
      else if t = ''suppliers'' then map_option e_status (find (\<lambda>r. e_id r = i) (suppliers db))
      else None)"

definition pair_stored :: "potential_duplicate list \<Rightarrow> string \<Rightarrow> int \<Rightarrow> int \<Rightarrow> bool" where
  "pair_stored rows t a b =
     (0 < length (filter (\<lambda>r. table_name r = t \<and>
                  ((record_id_1 r = a \<and> record_id_2 r = b) \<or>
                   (record_id_1 r = b \<and> record_id_2 r = a))) rows))"

fun high_pairs_stored :: "('a \<Rightarrow> 'a \<Rightarrow> real) \<Rightarrow> ('a \<Rightarrow> int) \<Rightarrow> real \<Rightarrow> string \<Rightarrow> 'a list
    \<Rightarrow> potential_duplicate list \<Rightarrow> bool" where
  "high_pairs_stored sim ident threshold t [] rows = True"
| "high_pairs_stored sim ident threshold t (r1 # rest) rows =
     (list_all (\<lambda>r2. sim r1 r2 < threshold \<or> pair_stored rows t (ident r1) (ident r2)) rest
      \<and> high_pairs_stored sim ident threshold t rest rows)"

section \<open>Example data\<close>

definition no_faults :: faults where
  "no_faults = (\<lambda>_. False)"

definition client_ana :: client where
  "client_ana = \<lparr>e_id = 1, e_status = ''active'', e_updated_by = None, e_updated_at = None,
     c_name = Some ''Ana Lima'', c_document_number = Some ''123.456.789-01'',
     c_email = Some ''ana@example.org'', c_phone = Some ''(11) 5555-0101''\<rparr>"

definition client_anna :: client where
  "client_anna = \<lparr>e_id = 2, e_status = ''active'', e_updated_by = None, e_updated_at = None,
     c_name = Some ''Anna Lima'', c_document_number = Some ''12345678901'',
     c_email = Some ''anna@example.org'', c_phone = Some ''11 5555 0101''\<rparr>"

definition supplier_acme :: supplier where
  "supplier_acme = \<lparr>e_id = 1, e_status = ''active'', e_updated_by = None, e_updated_at = None,
     s_name = Some ''Acme Ltda'', s_document_number = Some ''12.345.678/0001-90'',
     s_email = Some ''sales@acme.example'', s_contact_person = Some ''Rui Costa''\<rparr>"

definition supplier_acme2 :: supplier where
  "supplier_acme2 = \<lparr>e_id = 2, e_status = ''active'', e_updated_by = None, e_updated_at = None,
     s_name = Some ''ACME'', s_document_number = Some ''12345678000190'',
     s_email = Some ''sales@acme.example'', s_contact_person = Some ''Rui''\<rparr>"

definition product_widget :: product where
  "product_widget = \<lparr>e_id = 1, e_status = ''active'', e_updated_by = None, e_updated_at = None,
     p_code = Some ''P1'', p_name = Some ''Widget'', p_description = Some ''A small widget''\<rparr>"

definition product_widget2 :: product where
  "product_widget2 = \<lparr>e_id = 2, e_status = ''active'', e_updated_by = None, e_updated_at = None,
     p_code = Some ''P2'', p_name = Some ''Widget'', p_description = None\<rparr>"

definition client_joao_a :: client where
  \<comment> \<open>the name is \<^verbatim>\<open>Jo\<close>, U+00E3, \<^verbatim>\<open>o Silva\<close>\<close>
  "client_joao_a = \<lparr>e_id = 1, e_status = ''active'', e_updated_by = None, e_updated_at = None,
     c_name = Some (''Jo'' @ CHR 0xE3 # ''o Silva''), c_document_number = Some ''123.456.789-01'',
     c_email = None, c_phone = None\<rparr>"

definition client_joao_b :: client where
  "client_joao_b = \<lparr>e_id = 2, e_status = ''active'', e_updated_by = None, e_updated_at = None,
     c_name = Some ''Joao Silva'', c_document_number = Some ''12345678901'',
     c_email = None, c_phone = None\<rparr>"

definition db_joao :: database where
  "db_joao = \<lparr>clients = [client_joao_a, client_joao_b], products = [], suppliers = [],
     audit_trail = [], potential_duplicates = [], last_duplicate_id = 0, now = 0\<rparr>"

definition client_tide :: client where
  "client_tide = \<lparr>e_id = 1, e_status = ''active'', e_updated_by = None, e_updated_at = None,
     c_name = Some ''tide'', c_document_number = Some ''1'', c_email = None, c_phone = None\<rparr>"

definition client_diet :: client where
  "client_diet = \<lparr>e_id = 2, e_status = ''active'', e_updated_by = None, e_updated_at = None,
     c_name = Some ''diet'', c_document_number = Some ''2'', c_email = None, c_phone = None\<rparr>"


definition candidate_1_2 :: potential_duplicate where
  "candidate_1_2 = \<lparr>pd_id = Some 1, table_name = ''clients'', record_id_1 = 1, record_id_2 = 2,
     similarity_score = 263 / 1000, status = ''pending'', reviewed_by = None, reviewed_at = None,
     created_at = Some 5\<rparr>"

definition candidate_new_1_2 :: potential_duplicate where
  "candidate_new_1_2 = \<lparr>pd_id = None, table_name = ''clients'', record_id_1 = 1, record_id_2 = 2,
     similarity_score = 263 / 1000, status = ''pending'', reviewed_by = None, reviewed_at = None,
     created_at = None\<rparr>"

definition db_ana_only :: database where
  "db_ana_only = \<lparr>clients = [client_ana], products = [], suppliers = [],
     audit_trail = [], potential_duplicates = [candidate_1_2], last_duplicate_id = 1, now = 7\<rparr>"

definition db_ana_anna :: database where
  "db_ana_anna = \<lparr>clients = [client_ana, client_anna], products = [], suppliers = [],
     audit_trail = [], potential_duplicates = [candidate_1_2], last_duplicate_id = 1, now = 7\<rparr>"


definition db_anna_only :: database where
  "db_anna_only = \<lparr>clients = [client_anna], products = [], suppliers = [],
     audit_trail = [], potential_duplicates = [candidate_1_2], last_duplicate_id = 1, now = 7\<rparr>"

section \<open>Scoring\<close>

text \<open>
  Claim C1. A record compared with itself, every weighted field present, should score 1.0.
  The scorers divide the sum of the weighted field scores by the number of fields compared,
  not by the sum of their weights: with all four fields equal the client and supplier
  scorers return (0.4 + 0.3 + 0.2 + 0.1) / 4 = 0.25, the product scorer
  (0.4 + 0.4 + 0.2) / 3.
\<close>

theorem self_similarity_divides_by_field_count:
  "calculate_client_similarity client_ana client_ana = 1 / 4
   \<and> calculate_supplier_similarity supplier_acme supplier_acme = 1 / 4
   \<and> calculate_product_similarity product_widget product_widget = 1 / 3"
  by code_simp

text \<open>
  Claim C4. In the scenario of the two Silva clients the names have similarity 0.9 and the
  normalised documents are equal, yet the client scorer returns (0.36 + 0.3) / 2 = 0.33,
  below the default threshold 0.8, and detection over the two active records stores no
  candidate.
\<close>

theorem joao_scenario_below_default_threshold:
  "calculate_similarity (c_name client_joao_a) (c_name client_joao_b) = 9 / 10
   \<and> normalize_document (c_document_number client_joao_a)
       = normalize_document (c_document_number client_joao_b)
   \<and> calculate_client_similarity client_joao_a client_joao_b = 33 / 100
   \<and> detect_client_duplicates no_faults (8 / 10) db_joao = (Inr [], db_joao)"
  by code_simp

section \<open>Symmetry of the scorers\<close>

lemma client_similarity_commute:
  assumes n: "calculate_similarity (c_name a) (c_name b) = calculate_similarity (c_name b) (c_name a)"
    and e: "calculate_similarity (c_email a) (c_email b) = calculate_similarity (c_email b) (c_email a)"
    and p: "truthy (c_phone a) \<and> truthy (c_phone b) \<Longrightarrow>
            calculate_similarity (Some (filter py_isdigit (the (c_phone a))))
                                 (Some (filter py_isdigit (the (c_phone b))))
            = calculate_similarity (Some (filter py_isdigit (the (c_phone b))))
                                   (Some (filter py_isdigit (the (c_phone a))))"
  shows "calculate_client_similarity a b = calculate_client_similarity b a"
proof -
  let ?da = "normalize_document (c_document_number a)"
  let ?db = "normalize_document (c_document_number b)"
  have c1: "(?da \<noteq> [] \<and> ?db \<noteq> []) = (?db \<noteq> [] \<and> ?da \<noteq> [])" by (rule conj_commute)
  have c2: "(?da = ?db) = (?db = ?da)" by (rule eq_commute)
  have c3: "(truthy (c_email a) \<and> truthy (c_email b)) = (truthy (c_email b) \<and> truthy (c_email a))"
    by (rule conj_commute)
  have c4: "(truthy (c_phone a) \<and> truthy (c_phone b)) = (truthy (c_phone b) \<and> truthy (c_phone a))"
    by (rule conj_commute)
  show ?thesis
  proof (cases "truthy (c_phone b) \<and> truthy (c_phone a)")
    case True
    then have p': "calculate_similarity (Some (filter py_isdigit (the (c_phone a))))
                                 (Some (filter py_isdigit (the (c_phone b))))
            = calculate_similarity (Some (filter py_isdigit (the (c_phone b))))
                                   (Some (filter py_isdigit (the (c_phone a))))"
      using p by blast
    show ?thesis unfolding calculate_client_similarity_def Let_def
      by (simp only: n e p' c1 c2 c3 c4)
  next
    case False
    then have f: "(truthy (c_phone b) \<and> truthy (c_phone a)) = False" by simp
    show ?thesis unfolding calculate_client_similarity_def Let_def
      by (simp only: n e c1 c2 c3 c4 f if_False)
  qed
qed

lemma product_similarity_commute:
  assumes n: "calculate_similarity (p_name p) (p_name q) = calculate_similarity (p_name q) (p_name p)"
    and d: "calculate_similarity (p_description p) (p_description q)
            = calculate_similarity (p_description q) (p_description p)"
  shows "calculate_product_similarity p q = calculate_product_similarity q p"
proof -
  let ?cp = "py_lower (the (p_code p))"
  let ?cq = "py_lower (the (p_code q))"
  have c1: "(truthy (p_code p) \<and> truthy (p_code q)) = (truthy (p_code q) \<and> truthy (p_code p))"
    by (rule conj_commute)
  have c2: "(?cp = ?cq) = (?cq = ?cp)" by (rule eq_commute)
  have c3: "(truthy (p_description p) \<and> truthy (p_description q))
            = (truthy (p_description q) \<and> truthy (p_description p))"
    by (rule conj_commute)
  show ?thesis unfolding calculate_product_similarity_def Let_def
    by (simp only: n d c1 c2 c3)
qed

lemma supplier_similarity_commute:
  assumes n: "calculate_similarity (s_name s) (s_name t) = calculate_similarity (s_name t) (s_name s)"
    and e: "calculate_similarity (s_email s) (s_email t) = calculate_similarity (s_email t) (s_email s)"
    and c: "calculate_similarity (s_contact_person s) (s_contact_person t)
            = calculate_similarity (s_contact_person t) (s_contact_person s)"
  shows "calculate_supplier_similarity s t = calculate_supplier_similarity t s"
proof -
  let ?ds = "normalize_document (s_document_number s)"
  let ?dt = "normalize_document (s_document_number t)"
  have c1: "(?ds \<noteq> [] \<and> ?dt \<noteq> []) = (?dt \<noteq> [] \<and> ?ds \<noteq> [])" by (rule conj_commute)
  have c2: "(?ds = ?dt) = (?dt = ?ds)" by (rule eq_commute)
  have c3: "(truthy (s_email s) \<and> truthy (s_email t)) = (truthy (s_email t) \<and> truthy (s_email s))"
    by (rule conj_commute)
  have c4: "(truthy (s_contact_person s) \<and> truthy (s_contact_person t))
            = (truthy (s_contact_person t) \<and> truthy (s_contact_person s))"
    by (rule conj_commute)
  show ?thesis unfolding calculate_supplier_similarity_def Let_def
    by (simp only: n e c c1 c2 c3 c4)
qed

text \<open>
  Claim C9, as stated, fails: \<^verbatim>\<open>SequenceMatcher.ratio\<close> depends on the order of its arguments
  (the longest match is searched with ties broken by position in the first string), so the
  text similarity of \<^verbatim>\<open>tide\<close> and \<^verbatim>\<open>diet\<close> is 0.25 one way and 0.5 the other, and the client
  scorer differs with it.
\<close>

theorem text_similarity_not_symmetric:
  "calculate_similarity (Some ''tide'') (Some ''diet'') = 1 / 4
   \<and> calculate_similarity (Some ''diet'') (Some ''tide'') = 1 / 2
   \<and> calculate_client_similarity client_tide client_diet
       \<noteq> calculate_client_similarity client_diet client_tide"
  by code_simp

text \<open>
  Claim C9, amended: everything in a scorer but the text similarity is symmetric (which
  fields are compared, the exact comparison of documents and codes, the weights). Each of the
  three scorers gives the same score in both orders whenever \<^verbatim>\<open>calculate_similarity\<close> does on
  the text fields it compares.
\<close>

theorem scorers_symmetric_if_text_similarity_is:
  "(calculate_similarity (c_name a) (c_name b) = calculate_similarity (c_name b) (c_name a)
     \<longrightarrow> calculate_similarity (c_email a) (c_email b) = calculate_similarity (c_email b) (c_email a)
     \<longrightarrow> (truthy (c_phone a) \<and> truthy (c_phone b) \<longrightarrow>
            calculate_similarity (Some (filter py_isdigit (the (c_phone a))))
                                 (Some (filter py_isdigit (the (c_phone b))))
            = calculate_similarity (Some (filter py_isdigit (the (c_phone b))))
                                   (Some (filter py_isdigit (the (c_phone a)))))
     \<longrightarrow> calculate_client_similarity a b = calculate_client_similarity b a)
   \<and> (calculate_similarity (p_name p) (p_name q) = calculate_similarity (p_name q) (p_name p)
     \<longrightarrow> calculate_similarity (p_description p) (p_description q)
          = calculate_similarity (p_description q) (p_description p)
     \<longrightarrow> calculate_product_similarity p q = calculate_product_similarity q p)
   \<and> (calculate_similarity (s_name s) (s_name t) = calculate_similarity (s_name t) (s_name s)
     \<longrightarrow> calculate_similarity (s_email s) (s_email t) = calculate_similarity (s_email t) (s_email s)
     \<longrightarrow> calculate_similarity (s_contact_person s) (s_contact_person t)
          = calculate_similarity (s_contact_person t) (s_contact_person s)
     \<longrightarrow> calculate_supplier_similarity s t = calculate_supplier_similarity t s)"
  using client_similarity_commute[of a b] product_similarity_commute[of p q]
    supplier_similarity_commute[of s t]
  by blast

theorem scorers_symmetric_on_examples:
  "calculate_client_similarity client_ana client_anna
     = calculate_client_similarity client_anna client_ana
   \<and> calculate_product_similarity product_widget product_widget2
     = calculate_product_similarity product_widget2 product_widget
   \<and> calculate_supplier_similarity supplier_acme supplier_acme2
     = calculate_supplier_similarity supplier_acme2 supplier_acme"
proof -
  have w1: "calculate_similarity (c_name client_ana) (c_name client_anna)
      = calculate_similarity (c_name client_anna) (c_name client_ana)" by code_simp
  have w2: "calculate_similarity (c_email client_ana) (c_email client_anna)
      = calculate_similarity (c_email client_anna) (c_email client_ana)" by code_simp
  have w3: "calculate_similarity (Some (filter py_isdigit (the (c_phone client_ana))))
                                 (Some (filter py_isdigit (the (c_phone client_anna))))
            = calculate_similarity (Some (filter py_isdigit (the (c_phone client_anna))))
                                   (Some (filter py_isdigit (the (c_phone client_ana))))" by code_simp
  have w4: "calculate_similarity (p_name product_widget) (p_name product_widget2)
      = calculate_similarity (p_name product_widget2) (p_name product_widget)" by code_simp
  have w5: "calculate_similarity (p_description product_widget) (p_description product_widget2)
      = calculate_similarity (p_description product_widget2) (p_description product_widget)" by code_simp
  have w6: "calculate_similarity (s_name supplier_acme) (s_name supplier_acme2)
      = calculate_similarity (s_name supplier_acme2) (s_name supplier_acme)" by code_simp
  have w7: "calculate_similarity (s_email supplier_acme) (s_email supplier_acme2)
      = calculate_similarity (s_email supplier_acme2) (s_email supplier_acme)" by code_simp
  have w8: "calculate_similarity (s_contact_person supplier_acme) (s_contact_person supplier_acme2)
      = calculate_similarity (s_contact_person supplier_acme2) (s_contact_person supplier_acme)" by code_simp
  from scorers_symmetric_if_text_similarity_is[of client_ana client_anna product_widget
      product_widget2 supplier_acme supplier_acme2] w1 w2 w3 w4 w5 w6 w7 w8
  show ?thesis by blast
qed

section \<open>Loading the records of a candidate\<close>

lemma find_None_map: "(find (\<lambda>r. f r = i) rows = None) = (i \<notin> set (map f rows))"
  by (auto simp: find_None_iff)

text \<open>
  Claim C5, as stated, fails: \<^verbatim>\<open>get_by_id\<close> returns \<^verbatim>\<open>None\<close> for an id that is not in the
  table, and \<^verbatim>\<open>get_duplicate_details\<close> passes it on. With record 2 gone the call returns
  the pair (record 1, \<^verbatim>\<open>None\<close>); the page tests the pair and shows an error.
\<close>

theorem get_duplicate_details_missing_record:
  "get_duplicate_details no_faults candidate_1_2 db_ana_only
     = Inr (Some (ClientRecord client_ana), None)"
  by code_simp

text \<open>
  Claim C5, amended: when the two reads do not fail, \<^verbatim>\<open>get_duplicate_details\<close> returns a
  pair, and a component is \<^verbatim>\<open>None\<close> exactly when its record id does not resolve in the table
  the candidate names (for a table name other than the three, both are \<^verbatim>\<open>None\<close>).
\<close>

theorem get_duplicate_details_none_for_missing:
  assumes "\<not> F (SelectById (table_name d) (record_id_1 d))"
    and "\<not> F (SelectById (table_name d) (record_id_2 d))"
  shows "\<exists>record1 record2. get_duplicate_details F d db = Inr (record1, record2)
     \<and> (record1 = None) = (\<not> resolves db (table_name d) (record_id_1 d))
     \<and> (record2 = None) = (\<not> resolves db (table_name d) (record_id_2 d))"
proof -
  note defs = get_duplicate_details_def Client_get_by_id_def Product_get_by_id_def
    Supplier_get_by_id_def get_by_id_def resolves_def
  consider (clients) "table_name d = ''clients''"
    | (products) "table_name d = ''products''"
    | (suppliers) "table_name d = ''suppliers''"
    | (other) "table_name d \<noteq> ''clients''" "table_name d \<noteq> ''products''"
        "table_name d \<noteq> ''suppliers''"
    by blast
  then show ?thesis
  proof cases
    case clients
    with assms show ?thesis by (simp add: defs find_None_map)
  next
    case products
    with assms show ?thesis by (simp add: defs find_None_map)
  next
    case suppliers
    with assms show ?thesis by (simp add: defs find_None_map)
  next
    case other
    then show ?thesis by (simp add: defs)
  qed
qed

theorem get_duplicate_details_on_example:
  "\<exists>record1. get_duplicate_details no_faults candidate_1_2 db_ana_only = Inr (Some record1, None)"
proof -
  have f1: "\<not> no_faults (SelectById (table_name candidate_1_2) (record_id_1 candidate_1_2))"
    and f2: "\<not> no_faults (SelectById (table_name candidate_1_2) (record_id_2 candidate_1_2))"
    by (simp_all add: no_faults_def)
  have r1: "resolves db_ana_only (table_name candidate_1_2) (record_id_1 candidate_1_2)"
    by code_simp
  have r2: "\<not> resolves db_ana_only (table_name candidate_1_2) (record_id_2 candidate_1_2)"
    by code_simp
  from get_duplicate_details_none_for_missing[OF f1 f2, of db_ana_only] r1 r2
  show ?thesis by auto
qed

section \<open>Inserting a candidate\<close>

text \<open>
  Claim C8, as stated, fails: the table has no uniqueness constraint and \<^verbatim>\<open>save\<close> does not
  look at the rows stored. Saving a new candidate for the pair (1, 2) of \<^verbatim>\<open>clients\<close>, already
  stored with id 1, returns the new id 2 and leaves two rows for the pair.
\<close>

theorem save_twice_stores_pair_twice:
  "duplicate_exists no_faults ''clients'' 1 2 db_ana_anna = Inr True
   \<and> fst (save no_faults candidate_new_1_2 db_ana_anna) = Inr 2
   \<and> map identity_columns (potential_duplicates (snd (snd (save no_faults candidate_new_1_2 db_ana_anna))))
      = [(Some 1, ''clients'', 1, 2, 263 / 1000, Some 5), (Some 2, ''clients'', 1, 2, 263 / 1000, Some 7)]"
  by code_simp

text \<open>
  Claim C8, amended: saving a candidate that has no id, when neither the INSERT nor its
  commit fails, appends one row with the next id, whatever rows are stored. The pair is kept
  unique only by the check \<^verbatim>\<open>_duplicate_exists\<close> that detection makes before it saves.
\<close>

theorem save_inserts_without_uniqueness_check:
  assumes "pd_id d = None"
    and "\<not> F (InsertDuplicate (table_name d) (record_id_1 d) (record_id_2 d))"
    and "\<not> F (CommitInsert (table_name d) (record_id_1 d) (record_id_2 d))"
  shows "fst (save F d db) = Inr (last_duplicate_id db + 1)
     \<and> potential_duplicates (snd (snd (save F d db)))
        = potential_duplicates db @
          [\<lparr>pd_id = Some (last_duplicate_id db + 1), table_name = table_name d,
            record_id_1 = record_id_1 d, record_id_2 = record_id_2 d,
            similarity_score = similarity_score d, status = status d,
            reviewed_by = None, reviewed_at = None, created_at = Some (now db)\<rparr>]"
  using assms by (simp add: save_def Let_def)

theorem save_inserts_stored_pair_again:
  "duplicate_exists no_faults ''clients'' 1 2 db_ana_anna = Inr True
   \<and> fst (save no_faults candidate_new_1_2 db_ana_anna) = Inr 2
   \<and> length (potential_duplicates (snd (snd (save no_faults candidate_new_1_2 db_ana_anna)))) = 2"
proof -
  have h1: "pd_id candidate_new_1_2 = None" by (simp add: candidate_new_1_2_def)
  have h2: "\<not> no_faults (InsertDuplicate (table_name candidate_new_1_2)
              (record_id_1 candidate_new_1_2) (record_id_2 candidate_new_1_2))"
    and h3: "\<not> no_faults (CommitInsert (table_name candidate_new_1_2)
              (record_id_1 candidate_new_1_2) (record_id_2 candidate_new_1_2))"
    by (simp_all add: no_faults_def)
  have e: "duplicate_exists no_faults ''clients'' 1 2 db_ana_anna = Inr True" by code_simp
  have l: "last_duplicate_id db_ana_anna = 1" "length (potential_duplicates db_ana_anna) = 1"
    by (simp_all add: db_ana_anna_def)
  from save_inserts_without_uniqueness_check[OF h1 h2 h3, of db_ana_anna] e l
  show ?thesis by simp
qed

section \<open>What a resolution writes\<close>

lemma snd_delete: "snd (delete F t rows_of i user db) = db"
  by (simp add: delete_def split: sum.splits option.splits)

lemma snd_drop_result:
  "snd (case p of (Inl e, db') \<Rightarrow> (Inl e, db') | (Inr x, db') \<Rightarrow> (Inr (), db')) = snd p"
  by (auto split: prod.splits sum.splits)

lemma snd_merge_delete: "snd (merge_delete F d keep user db) = db"
  by (simp add: merge_delete_def Let_def snd_drop_result Client_delete_def Product_delete_def
      Supplier_delete_def snd_delete)

lemma merge_delete_potential_duplicates:
  "potential_duplicates (snd (merge_delete F d keep user db)) = potential_duplicates db"
  by (simp add: snd_merge_delete)

lemma identity_columns_update:
  "identity_columns (if c then r\<lparr>status := s, reviewed_by := b, reviewed_at := a\<rparr> else r)
     = identity_columns r"
  by (simp add: identity_columns_def)

lemma save_identity_columns:
  "map identity_columns (take (length (potential_duplicates db))
       (potential_duplicates (snd (snd (save F d db)))))
     = map identity_columns (potential_duplicates db)"
  by (cases "pd_id d") (simp_all add: save_def Let_def o_def identity_columns_update)

lemma save_length:
  "pd_id d \<noteq> None \<Longrightarrow>
     length (potential_duplicates (snd (snd (save F d db)))) = length (potential_duplicates db)"
  by (cases "pd_id d") (simp_all add: save_def)

text \<open>
  Claim C10: \<^verbatim>\<open>merge_records\<close> and \<^verbatim>\<open>mark_as_not_duplicate\<close>, whatever their outcome, leave the
  id, table name, record ids, score and creation time of every stored row as they were; the
  UPDATE of \<^verbatim>\<open>save\<close> (a candidate with an id) writes \<^verbatim>\<open>status\<close>, \<^verbatim>\<open>reviewed_by\<close> and
  \<^verbatim>\<open>reviewed_at\<close> only and adds no row.
\<close>

theorem resolution_keeps_identity_columns:
  "map identity_columns (take (length (potential_duplicates db))
       (potential_duplicates (snd (snd (merge_records F d keep user db)))))
     = map identity_columns (potential_duplicates db)
   \<and> map identity_columns (take (length (potential_duplicates db))
       (potential_duplicates (snd (snd (mark_as_not_duplicate F d user db)))))
     = map identity_columns (potential_duplicates db)
   \<and> (pd_id d \<noteq> None \<longrightarrow>
        map identity_columns (potential_duplicates (snd (snd (save F d db))))
          = map identity_columns (potential_duplicates db)
      \<and> map identity_columns (potential_duplicates (snd (snd (merge_records F d keep user db))))
          = map identity_columns (potential_duplicates db)
      \<and> map identity_columns (potential_duplicates (snd (snd (mark_as_not_duplicate F d user db))))
          = map identity_columns (potential_duplicates db))"
proof (intro conjI impI)
  obtain r1 db1 where md: "merge_delete F d keep user db = (r1, db1)"
    by (cases "merge_delete F d keep user db") auto
  have pd1: "potential_duplicates db1 = potential_duplicates db"
    using merge_delete_potential_duplicates[of F d keep user db] md by simp
  let ?d' = "d\<lparr>status := ''merged'', reviewed_by := Some user\<rparr>"
  have m: "potential_duplicates (snd (snd (merge_records F d keep user db)))
      = potential_duplicates db
    \<or> potential_duplicates (snd (snd (merge_records F d keep user db)))
      = potential_duplicates (snd (snd (save F ?d' db1)))"
    by (cases r1) (auto simp: merge_records_def merge_records_try_def md pd1 split: prod.splits sum.splits)
  show g1: "map identity_columns (take (length (potential_duplicates db))
       (potential_duplicates (snd (snd (merge_records F d keep user db)))))
     = map identity_columns (potential_duplicates db)"
    using m save_identity_columns[of db1 F ?d'] pd1 by auto
  have k: "potential_duplicates (snd (snd (mark_as_not_duplicate F d user db)))
      = potential_duplicates (snd (snd (save F (d\<lparr>status := ''not_duplicate'', reviewed_by := Some user\<rparr>) db)))"
    by (auto simp: mark_as_not_duplicate_def split: prod.splits sum.splits)
  show g2: "map identity_columns (take (length (potential_duplicates db))
       (potential_duplicates (snd (snd (mark_as_not_duplicate F d user db)))))
     = map identity_columns (potential_duplicates db)"
    unfolding k by (rule save_identity_columns)
  assume i: "pd_id d \<noteq> None"
  show "map identity_columns (potential_duplicates (snd (snd (save F d db))))
          = map identity_columns (potential_duplicates db)"
    using save_identity_columns[of db F d] save_length[OF i, of F db] by simp
  have "length (potential_duplicates (snd (snd (merge_records F d keep user db))))
      = length (potential_duplicates db)"
    using m save_length[of ?d' F db1] i pd1 by auto
  with g1 show "map identity_columns (potential_duplicates (snd (snd (merge_records F d keep user db))))
          = map identity_columns (potential_duplicates db)" by simp
  have "length (potential_duplicates (snd (snd (mark_as_not_duplicate F d user db))))
      = length (potential_duplicates db)"
    unfolding k using save_length[of "d\<lparr>status := ''not_duplicate'', reviewed_by := Some user\<rparr>" F db] i
    by simp
  with g2 show "map identity_columns (potential_duplicates (snd (snd (mark_as_not_duplicate F d user db))))
          = map identity_columns (potential_duplicates db)" by simp
qed

theorem resolution_keeps_identity_columns_on_examples:
  "map identity_columns (potential_duplicates
       (snd (snd (mark_as_not_duplicate no_faults candidate_1_2 ''bob'' db_ana_anna))))
     = [(Some 1, ''clients'', 1, 2, 263 / 1000, Some 5)]
   \<and> map status (potential_duplicates
       (snd (snd (mark_as_not_duplicate no_faults candidate_1_2 ''bob'' db_ana_anna))))
     = [''not_duplicate'']
   \<and> map identity_columns (potential_duplicates
       (snd (snd (merge_records no_faults candidate_1_2 1 ''alice'' db_ana_only))))
     = [(Some 1, ''clients'', 1, 2, 263 / 1000, Some 5)]
   \<and> map status (potential_duplicates
       (snd (snd (merge_records no_faults candidate_1_2 1 ''alice'' db_ana_only))))
     = [''merged'']"
proof -
  have i: "pd_id candidate_1_2 \<noteq> None" by (simp add: candidate_1_2_def)
  have c: "map identity_columns (potential_duplicates db_ana_anna)
      = [(Some 1, ''clients'', 1, 2, 263 / 1000, Some 5)]"
    "map identity_columns (potential_duplicates db_ana_only)
      = [(Some 1, ''clients'', 1, 2, 263 / 1000, Some 5)]"
    by (simp_all add: db_ana_anna_def db_ana_only_def candidate_1_2_def identity_columns_def)
  have s: "map status (potential_duplicates
       (snd (snd (mark_as_not_duplicate no_faults candidate_1_2 ''bob'' db_ana_anna))))
     = [''not_duplicate'']"
    "map status (potential_duplicates
       (snd (snd (merge_records no_faults candidate_1_2 1 ''alice'' db_ana_only))))
     = [''merged'']"
    by code_simp+
  from resolution_keeps_identity_columns[of db_ana_anna no_faults candidate_1_2 1 "''bob''"]
    resolution_keeps_identity_columns[of db_ana_only no_faults candidate_1_2 1 "''alice''"] i c s
  show ?thesis by simp
qed

section \<open>Merging\<close>

lemma fst_delete:
  "fst (delete F t rows_of i user db) =
     (if F (SelectById t i) then Inl DatabaseError
      else if find (\<lambda>r. e_id r = i) (rows_of db) = None then Inr False
      else Inl DatabaseError)"
  by (simp add: delete_def get_by_id_def split: option.splits)

lemma fst_drop_result:
  "fst (case p of (Inl e, db') \<Rightarrow> (Inl e, db') | (Inr x, db') \<Rightarrow> (Inr (), db'))
     = (case fst p of Inl e \<Rightarrow> Inl e | Inr x \<Rightarrow> Inr ())"
  by (auto split: prod.splits sum.splits)

lemma fst_merge_delete:
  assumes "table_name d = ''clients'' \<or> table_name d = ''products'' \<or> table_name d = ''suppliers''"
  shows "fst (merge_delete F d keep user db) =
     (if F (SelectById (table_name d) (if keep = record_id_1 d then record_id_2 d else record_id_1 d))
      then Inl DatabaseError
      else if resolves db (table_name d) (if keep = record_id_1 d then record_id_2 d else record_id_1 d)
      then Inl DatabaseError else Inr ())"
  using assms
  by (auto simp: merge_delete_def Let_def fst_drop_result Client_delete_def Product_delete_def
      Supplier_delete_def fst_delete resolves_def find_None_map)

lemma merge_records_unfold:
  "merge_records F d keep user db =
     (case fst (merge_delete F d keep user db) of
        Inl e \<Rightarrow> (Inr False, d, db)
      | Inr u \<Rightarrow>
          (case save F (d\<lparr>status := ''merged'', reviewed_by := Some user\<rparr>) db of
             (Inl e, d', db') \<Rightarrow> (Inr False, d', db')
           | (Inr x, d', db') \<Rightarrow> (Inr True, d', db')))"
proof -
  obtain r db1 where md: "merge_delete F d keep user db = (r, db1)"
    by (cases "merge_delete F d keep user db") auto
  have "db1 = db" using snd_merge_delete[of F d keep user db] md by simp
  then show ?thesis
    by (cases r) (auto simp: merge_records_def merge_records_try_def md split: prod.splits sum.splits)
qed

lemma save_entities:
  "clients (snd (snd (save F d db))) = clients db
   \<and> products (snd (snd (save F d db))) = products db
   \<and> suppliers (snd (snd (save F d db))) = suppliers db"
  by (cases "pd_id d") (simp_all add: save_def Let_def)

lemma merge_records_entities:
  "clients (snd (snd (merge_records F d keep user db))) = clients db
   \<and> products (snd (snd (merge_records F d keep user db))) = products db
   \<and> suppliers (snd (snd (merge_records F d keep user db))) = suppliers db"
  using save_entities[of F "d\<lparr>status := ''merged'', reviewed_by := Some user\<rparr>" db]
  by (auto simp: merge_records_unfold split: sum.splits prod.splits)

lemma merge_records_no_error: "\<exists>b. fst (merge_records F d keep user db) = Inr b"
  by (auto simp: merge_records_unfold split: sum.splits prod.splits)

lemma save_error:
  "save F d db = (Inl e, d', db') \<Longrightarrow> db' = db"
  by (cases "pd_id d") (auto simp: save_def Let_def split: if_splits)

lemma save_update_ok:
  assumes "pd_id d = Some i" and "save F d db = (Inr x, d', db')"
  shows "potential_duplicates db' =
        map (\<lambda>r. if pd_id r = Some i
                  then r\<lparr>status := status d, reviewed_by := reviewed_by d,
                         reviewed_at := Some (now db)\<rparr>
                  else r) (potential_duplicates db)"
  using assms by (auto simp: save_def split: if_splits)

lemma save_update_no_fault:
  "pd_id d = Some i \<Longrightarrow> \<not> F (UpdateDuplicate i) \<Longrightarrow> \<not> F (CommitUpdate i) \<Longrightarrow>
     save F d db =
     (Inr i, d, db\<lparr>potential_duplicates :=
        map (\<lambda>r. if pd_id r = Some i
                  then r\<lparr>status := status d, reviewed_by := reviewed_by d,
                         reviewed_at := Some (now db)\<rparr>
                  else r) (potential_duplicates db)\<rparr>)"
  by (simp add: save_def)

lemma record_status_resolves: "(record_status db t i = None) = (\<not> resolves db t i)"
  by (simp add: record_status_def resolves_def find_None_map)

lemma record_status_entities:
  "clients db' = clients db \<Longrightarrow> products db' = products db \<Longrightarrow> suppliers db' = suppliers db
     \<Longrightarrow> record_status db' t i = record_status db t i"
  by (simp add: record_status_def)

text \<open>
  Claim C2, amended: \<^verbatim>\<open>merge_records\<close> does not validate \<^verbatim>\<open>keep_record_id\<close> and raises no
  error. A \<^verbatim>\<open>keep_record_id\<close> other than \<^verbatim>\<open>record_id_1\<close>, so also one equal to neither id, is
  handled as \<^verbatim>\<open>record_id_2\<close> is: the record to delete is \<^verbatim>\<open>record_id_1\<close>. No entity table
  changes. For a candidate of one of the three tables: if record \<^verbatim>\<open>record_id_1\<close> exists, the
  result is \<^verbatim>\<open>False\<close> and nothing changes; if it does not exist and neither the read nor the
  update of the stored candidate fails, the result is \<^verbatim>\<open>True\<close> and the rows of the candidate
  are set to \<^verbatim>\<open>merged\<close> with the user and the time of the review.
\<close>

theorem merge_records_ignores_foreign_keep_id:
  assumes "keep \<noteq> record_id_1 d"
  shows "merge_records F d keep user db = merge_records F d (record_id_2 d) user db
     \<and> (\<exists>b. fst (merge_records F d keep user db) = Inr b)
     \<and> clients (snd (snd (merge_records F d keep user db))) = clients db
     \<and> products (snd (snd (merge_records F d keep user db))) = products db
     \<and> suppliers (snd (snd (merge_records F d keep user db))) = suppliers db
     \<and> (table_name d = ''clients'' \<or> table_name d = ''products'' \<or> table_name d = ''suppliers'' \<longrightarrow>
          resolves db (table_name d) (record_id_1 d) \<longrightarrow>
          merge_records F d keep user db = (Inr False, d, db))
     \<and> (table_name d = ''clients'' \<or> table_name d = ''products'' \<or> table_name d = ''suppliers'' \<longrightarrow>
          \<not> resolves db (table_name d) (record_id_1 d) \<longrightarrow>
          pd_id d = Some i \<longrightarrow>
          \<not> F (SelectById (table_name d) (record_id_1 d)) \<longrightarrow>
          \<not> F (UpdateDuplicate i) \<longrightarrow> \<not> F (CommitUpdate i) \<longrightarrow>
          merge_records F d keep user db =
            (Inr True, d\<lparr>status := ''merged'', reviewed_by := Some user\<rparr>,
             db\<lparr>potential_duplicates :=
                map (\<lambda>r. if pd_id r = Some i
                          then r\<lparr>status := ''merged'', reviewed_by := Some user,
                                 reviewed_at := Some (now db)\<rparr>
                          else r) (potential_duplicates db)\<rparr>))"
proof (intro conjI impI)
  have id: "(if keep = record_id_1 d then record_id_2 d else record_id_1 d) = record_id_1 d"
    using assms by simp
  have id2: "(if record_id_2 d = record_id_1 d then record_id_2 d else record_id_1 d) = record_id_1 d"
    by simp
  have "merge_delete F d keep user db = merge_delete F d (record_id_2 d) user db"
    unfolding merge_delete_def Let_def id id2 ..
  then show "merge_records F d keep user db = merge_records F d (record_id_2 d) user db"
    by (simp add: merge_records_def merge_records_try_def)
  show "\<exists>b. fst (merge_records F d keep user db) = Inr b" by (rule merge_records_no_error)
  show "clients (snd (snd (merge_records F d keep user db))) = clients db"
    "products (snd (snd (merge_records F d keep user db))) = products db"
    "suppliers (snd (snd (merge_records F d keep user db))) = suppliers db"
    using merge_records_entities[of F d keep user db] by simp_all
  {
    assume t: "table_name d = ''clients'' \<or> table_name d = ''products'' \<or> table_name d = ''suppliers''"
      and r: "resolves db (table_name d) (record_id_1 d)"
    have "fst (merge_delete F d keep user db) = Inl DatabaseError"
      using r by (simp add: fst_merge_delete[OF t] id)
    then show "merge_records F d keep user db = (Inr False, d, db)"
      by (simp add: merge_records_unfold)
  }
  {
    assume t: "table_name d = ''clients'' \<or> table_name d = ''products'' \<or> table_name d = ''suppliers''"
      and r: "\<not> resolves db (table_name d) (record_id_1 d)"
      and i: "pd_id d = Some i"
      and f: "\<not> F (SelectById (table_name d) (record_id_1 d))"
        "\<not> F (UpdateDuplicate i)" "\<not> F (CommitUpdate i)"
    have md: "fst (merge_delete F d keep user db) = Inr ()"
      using r f(1) by (simp add: fst_merge_delete[OF t] id)
    have "pd_id (d\<lparr>status := ''merged'', reviewed_by := Some user\<rparr>) = Some i" using i by simp
    from save_update_no_fault[OF this f(2,3), of db]
    show "merge_records F d keep user db =
            (Inr True, d\<lparr>status := ''merged'', reviewed_by := Some user\<rparr>,
             db\<lparr>potential_duplicates :=
                map (\<lambda>r. if pd_id r = Some i
                          then r\<lparr>status := ''merged'', reviewed_by := Some user,
                                 reviewed_at := Some (now db)\<rparr>
                          else r) (potential_duplicates db)\<rparr>)"
      by (simp add: merge_records_unfold md)
  }
qed

text \<open>
  Claim C2, as stated, fails: for the pending candidate of clients 1 and 2 with client 1 no
  longer in the table, merging with \<^verbatim>\<open>keep_record_id = 99\<close> returns \<^verbatim>\<open>True\<close> and marks the
  candidate merged, reviewed by the user. With both clients in the table the same call
  returns \<^verbatim>\<open>False\<close>, not an error, and changes nothing.
\<close>

theorem merge_with_foreign_keep_id:
  "map status (potential_duplicates db_anna_only) = [''pending'']
   \<and> fst (merge_records no_faults candidate_1_2 99 ''alice'' db_anna_only) = Inr True
   \<and> map status (potential_duplicates
        (snd (snd (merge_records no_faults candidate_1_2 99 ''alice'' db_anna_only)))) = [''merged'']
   \<and> map reviewed_by (potential_duplicates
        (snd (snd (merge_records no_faults candidate_1_2 99 ''alice'' db_anna_only)))) = [Some ''alice'']
   \<and> merge_records no_faults candidate_1_2 99 ''alice'' db_ana_anna
      = (Inr False, candidate_1_2, db_ana_anna)"
  by code_simp

theorem merge_ignores_keep_id_on_examples:
  "merge_records no_faults candidate_1_2 3 ''bob'' db_ana_anna = (Inr False, candidate_1_2, db_ana_anna)
   \<and> fst (merge_records no_faults candidate_1_2 3 ''bob'' db_anna_only) = Inr True
   \<and> merge_records no_faults candidate_1_2 3 ''bob'' db_anna_only
      = merge_records no_faults candidate_1_2 2 ''bob'' db_anna_only"
proof -
  have h1: "3 \<noteq> record_id_1 candidate_1_2" by (simp add: candidate_1_2_def)
  have t: "table_name candidate_1_2 = ''clients''" "record_id_1 candidate_1_2 = 1"
    "record_id_2 candidate_1_2 = 2" "pd_id candidate_1_2 = Some 1"
    by (simp_all add: candidate_1_2_def)
  have r1: "resolves db_ana_anna ''clients'' 1" by code_simp
  have r2: "\<not> resolves db_anna_only ''clients'' 1" by code_simp
  have f: "\<not> no_faults (SelectById ''clients'' 1)" "\<not> no_faults (UpdateDuplicate 1)"
    "\<not> no_faults (CommitUpdate 1)"
    by (simp_all add: no_faults_def)
  note on_both = merge_records_ignores_foreign_keep_id[OF h1, of no_faults "''bob''" db_ana_anna 1]
  note on_one = merge_records_ignores_foreign_keep_id[OF h1, of no_faults "''bob''" db_anna_only 1]
  note p6 = on_both[THEN conjunct2, THEN conjunct2, THEN conjunct2, THEN conjunct2,
      THEN conjunct2, THEN conjunct1]
  note p7 = on_one[THEN conjunct2, THEN conjunct2, THEN conjunct2, THEN conjunct2,
      THEN conjunct2, THEN conjunct2]
  have a: "merge_records no_faults candidate_1_2 3 ''bob'' db_ana_anna
      = (Inr False, candidate_1_2, db_ana_anna)"
    using p6 t r1 by simp
  have b: "merge_records no_faults candidate_1_2 3 ''bob'' db_anna_only
      = merge_records no_faults candidate_1_2 2 ''bob'' db_anna_only"
    using on_one[THEN conjunct1] t by simp
  have b': "fst (merge_records no_faults candidate_1_2 3 ''bob'' db_anna_only) = Inr True"
    using p7 t r2 f by simp
  from a b b' show ?thesis by blast
qed

text \<open>
  Claim C3, amended: \<^verbatim>\<open>merge_records\<close> never raises; every exception is caught and
  \<^verbatim>\<open>False\<close> returned. When the delete of the entity raises, the result is \<^verbatim>\<open>False\<close> and the
  object and the database are as before. Whenever the result is \<^verbatim>\<open>False\<close> the candidate
  rows are as before. In every outcome the three entity tables, and so the status of every
  record, are as before: no merge leaves a record deleted that was not. When the result is
  \<^verbatim>\<open>True\<close>, for a stored candidate of one of the three tables, the record to delete is not in
  its table and the rows of the candidate are \<^verbatim>\<open>merged\<close> with the user as reviewer.
\<close>

theorem merge_records_catches_errors:
  "(\<exists>b. fst (merge_records F d keep user db) = Inr b)
   \<and> (fst (merge_delete F d keep user db) = Inl e \<longrightarrow>
        merge_records F d keep user db = (Inr False, d, db))
   \<and> (fst (merge_records F d keep user db) = Inr False \<longrightarrow>
        potential_duplicates (snd (snd (merge_records F d keep user db))) = potential_duplicates db)
   \<and> clients (snd (snd (merge_records F d keep user db))) = clients db
   \<and> products (snd (snd (merge_records F d keep user db))) = products db
   \<and> suppliers (snd (snd (merge_records F d keep user db))) = suppliers db
   \<and> record_status (snd (snd (merge_records F d keep user db))) t j = record_status db t j
   \<and> (fst (merge_records F d keep user db) = Inr True \<longrightarrow>
        (table_name d = ''clients'' \<or> table_name d = ''products'' \<or> table_name d = ''suppliers'') \<longrightarrow>
        pd_id d = Some i \<longrightarrow>
        record_status (snd (snd (merge_records F d keep user db))) (table_name d)
           (if keep = record_id_1 d then record_id_2 d else record_id_1 d) = None
        \<and> (\<forall>r \<in> set (potential_duplicates (snd (snd (merge_records F d keep user db)))).
              pd_id r = Some i \<longrightarrow> status r = ''merged'' \<and> reviewed_by r = Some user))"
proof (intro conjI impI)
  let ?d' = "d\<lparr>status := ''merged'', reviewed_by := Some user\<rparr>"
  let ?db' = "snd (snd (merge_records F d keep user db))"
  let ?loser = "if keep = record_id_1 d then record_id_2 d else record_id_1 d"
  show "\<exists>b. fst (merge_records F d keep user db) = Inr b" by (rule merge_records_no_error)
  show ent: "clients ?db' = clients db" "products ?db' = products db" "suppliers ?db' = suppliers db"
    using merge_records_entities[of F d keep user db] by simp_all
  show rs: "record_status ?db' t j = record_status db t j"
    using ent by (rule record_status_entities)
  {
    assume "fst (merge_delete F d keep user db) = Inl e"
    then show "merge_records F d keep user db = (Inr False, d, db)"
      by (simp add: merge_records_unfold)
  }
  obtain r2 d2 db2 where sv: "save F ?d' db = (r2, d2, db2)"
    by (cases "save F ?d' db") auto
  {
    assume f: "fst (merge_records F d keep user db) = Inr False"
    show "potential_duplicates ?db' = potential_duplicates db"
    proof (cases "fst (merge_delete F d keep user db)")
      case (Inl e1)
      then show ?thesis by (simp add: merge_records_unfold)
    next
      case (Inr u)
      with f obtain e2 where r2: "r2 = Inl e2"
        by (cases r2) (auto simp: merge_records_unfold sv)
      from save_error[OF sv[unfolded r2]] have "db2 = db" .
      then show ?thesis by (simp add: merge_records_unfold Inr sv r2)
    qed
  }
  {
    assume t: "fst (merge_records F d keep user db) = Inr True"
      and tb: "table_name d = ''clients'' \<or> table_name d = ''products'' \<or> table_name d = ''suppliers''"
      and i: "pd_id d = Some i"
    from t obtain u where md: "fst (merge_delete F d keep user db) = Inr u"
      by (cases "fst (merge_delete F d keep user db)") (auto simp: merge_records_unfold)
    with t obtain x where r2: "r2 = Inr x"
      by (cases r2) (auto simp: merge_records_unfold sv)
    have res: "?db' = db2" by (simp add: merge_records_unfold md sv r2)
    have "\<not> resolves db (table_name d) ?loser"
      using md fst_merge_delete[OF tb, of F keep user db] by (auto split: if_splits)
    then have "record_status db (table_name d) ?loser = None"
      by (simp add: record_status_resolves)
    moreover have "record_status ?db' (table_name d) ?loser
        = record_status db (table_name d) ?loser"
      using ent by (rule record_status_entities)
    ultimately show "record_status ?db' (table_name d) ?loser = None"
      by simp
    have "pd_id ?d' = Some i" using i by simp
    from save_update_ok[OF this sv[unfolded r2]]
    show "\<forall>r \<in> set (potential_duplicates ?db').
              pd_id r = Some i \<longrightarrow> status r = ''merged'' \<and> reviewed_by r = Some user"
      by (auto simp: res)
  }
qed

text \<open>
  Claim C3, as stated, fails: merging the candidate of clients 1 and 2, both in the table,
  makes \<^verbatim>\<open>Client.delete\<close> raise; \<^verbatim>\<open>merge_records\<close> returns \<^verbatim>\<open>False\<close> rather than the error.
\<close>

theorem merge_swallows_delete_error:
  "fst (Client_delete no_faults 2 ''alice'' db_ana_anna) = Inl DatabaseError
   \<and> merge_records no_faults candidate_1_2 1 ''alice'' db_ana_anna
     = (Inr False, candidate_1_2, db_ana_anna)"
  by code_simp

theorem merge_catches_errors_on_examples:
  "merge_records no_faults candidate_1_2 1 ''alice'' db_ana_anna
     = (Inr False, candidate_1_2, db_ana_anna)
   \<and> potential_duplicates (snd (snd (merge_records no_faults candidate_1_2 1 ''alice'' db_ana_anna)))
     = potential_duplicates db_ana_anna
   \<and> fst (merge_records no_faults candidate_1_2 1 ''alice'' db_ana_only) = Inr True
   \<and> record_status (snd (snd (merge_records no_faults candidate_1_2 1 ''alice'' db_ana_only)))
        ''clients'' 2 = None"
proof -
  have h1: "fst (merge_delete no_faults candidate_1_2 1 ''alice'' db_ana_anna) = Inl DatabaseError"
    by code_simp
  have h2: "fst (merge_records no_faults candidate_1_2 1 ''alice'' db_ana_only) = Inr True"
    by code_simp
  have h3: "table_name candidate_1_2 = ''clients''" "pd_id candidate_1_2 = Some 1"
    "record_id_1 candidate_1_2 = 1" "record_id_2 candidate_1_2 = 2"
    by (simp_all add: candidate_1_2_def)
  from merge_records_catches_errors[of no_faults candidate_1_2 1 "''alice''" db_ana_anna
      DatabaseError "''clients''" 2 1] h1
  have a: "merge_records no_faults candidate_1_2 1 ''alice'' db_ana_anna
     = (Inr False, candidate_1_2, db_ana_anna)"
    by blast
  then have a': "fst (merge_records no_faults candidate_1_2 1 ''alice'' db_ana_anna) = Inr False"
    by simp
  from merge_records_catches_errors[of no_faults candidate_1_2 1 "''alice''" db_ana_anna
      DatabaseError "''clients''" 2 1] a'
  have b: "potential_duplicates (snd (snd (merge_records no_faults candidate_1_2 1 ''alice'' db_ana_anna)))
     = potential_duplicates db_ana_anna"
    by blast
  note last = merge_records_catches_errors[of no_faults candidate_1_2 1 "''alice''" db_ana_only
      DatabaseError "''clients''" 2 1, THEN conjunct2, THEN conjunct2, THEN conjunct2,
      THEN conjunct2, THEN conjunct2, THEN conjunct2, THEN conjunct2]
  have c: "record_status (snd (snd (merge_records no_faults candidate_1_2 1 ''alice'' db_ana_only)))
        ''clients'' 2 = None"
    using last h2 h3 by simp
  from a b h2 c show ?thesis by blast
qed

section \<open>Repeated detection\<close>

lemma pair_stored_iff:
  "pair_stored rows t a b = (\<exists>r \<in> set rows. table_name r = t \<and>
                  ((record_id_1 r = a \<and> record_id_2 r = b) \<or>
                   (record_id_1 r = b \<and> record_id_2 r = a)))"
  by (auto simp: pair_stored_def filter_empty_conv)


lemma pair_stored_append: "pair_stored rows t a b \<Longrightarrow> pair_stored (rows @ added) t a b"
  by (auto simp: pair_stored_iff)




lemma high_pairs_stored_append:
  "high_pairs_stored sim ident threshold t rs rows \<Longrightarrow>
     high_pairs_stored sim ident threshold t rs (rows @ added)"
  by (induction rs) (auto simp: list_all_iff pair_stored_append)













section \<open>Detection over all tables\<close>




end
